theory Spec2Isabelle
  imports Main "HOL-Library.Sublist"
begin

section \<open>Values of the JavaScript runtime\<close>

text \<open>
  The two dialogs work on what \<^verbatim>\<open>JSON.parse\<close> returns: trees of plain objects, arrays
  and primitives, without sharing. A number is a value of the runtime's number type \<open>'n\<close>
  (an IEEE double there; the model never computes with it). An object is the list of its
  own properties in the order \<^verbatim>\<open>Object.keys\<close> lists them; an array is the list of its
  elements, a hole being \<open>JUndefined\<close> (a hole reads as \<^verbatim>\<open>undefined\<close>).
  A string is a list of bytes (its UTF-8 encoding); the code inspects ASCII characters
  and white space only.

  Properties inherited from the runtime's prototype objects (\<^verbatim>\<open>toString\<close>,
  \<^verbatim>\<open>constructor\<close>, ...) are not part of the model: reading a key that is not an own
  property gives \<^verbatim>\<open>undefined\<close>. The one inherited property that changes what an
  assignment does, the accessor \<^verbatim>\<open>__proto__\<close>, is modelled in \<open>assignProperty\<close>.
\<close>

datatype 'n jsval =
    JUndefined
  | JNull
  | JBool bool
  | JNum 'n
  | JStr string
  | JArr "'n jsval list"
  | JObj "(string \<times> 'n jsval) list"

text \<open>What a \<^verbatim>\<open>try\<close> block of the dialogs can catch.\<close>

datatype js_error = TypeError | SyntaxError

text \<open>
  Modelled from the spec: the segments of \<^verbatim>\<open>NodeData["path"]\<close>, whose declaration
  (\<^verbatim>\<open>types/graph\<close>) is not among the sources. A segment is a non-negative integer, which
  selects an element of an array, or a string, which selects a member of an object;
  \<^verbatim>\<open>jsonPathToString\<close> tells the two apart by \<^verbatim>\<open>typeof seg === "number"\<close>.
\<close>

datatype segment = Index nat | Key string

subsection \<open>Property keys\<close>

text \<open>\<^verbatim>\<open>String(n)\<close> for a non-negative integer below \<open>2\<^sup>5\<^sup>3\<close>: its decimal digits.\<close>

fun decimal :: "nat \<Rightarrow> string" where
  "decimal n =
     (if n < 10 then [''0123456789'' ! n]
      else decimal (n div 10) @ [''0123456789'' ! (n mod 10)])"

definition is_digit :: "char \<Rightarrow> bool" where
  "is_digit c = (48 \<le> (of_char c :: nat) \<and> (of_char c :: nat) \<le> 57)"

definition decimal_value :: "string \<Rightarrow> nat" where
  "decimal_value s = foldl (\<lambda>a c. 10 * a + ((of_char c :: nat) - 48)) 0 s"

text \<open>
  A property key is an array index when it is the canonical decimal form of an integer
  below \<open>2\<^sup>3\<^sup>2 - 1\<close>. The runtime lists such keys of an object first, in ascending
  numeric order, and every other key after them, in the order of creation.
\<close>

definition arrayIndex :: "string \<Rightarrow> nat option" where
  "arrayIndex s =
     (if s \<noteq> [] \<and> list_all is_digit s \<and> (s = ''0'' \<or> hd s \<noteq> CHR ''0'')
         \<and> decimal_value s < 4294967295
      then Some (decimal_value s) else None)"

text \<open>
  The key of \<^verbatim>\<open>current[segment]\<close> on an object. \<open>None\<close> is \<^verbatim>\<open>path[path.length - 1]\<close> of an
  empty path, \<^verbatim>\<open>undefined\<close>.
\<close>

fun propertyKey :: "segment option \<Rightarrow> string" where
  "propertyKey None = ''undefined''"
| "propertyKey (Some (Index n)) = decimal n"
| "propertyKey (Some (Key s)) = s"

text \<open>
  The position of \<^verbatim>\<open>current[Number(segment)]\<close> in an array, \<open>None\<close> when the number is
  not a position (\<^verbatim>\<open>NaN\<close>, a fraction, a negative number): the access is then to a named
  property of the array, which is no element. \<^verbatim>\<open>Number\<close> of a string is the runtime's
  (white space, signs, exponents, hexadecimal digits and rounding to a double), so it is
  the parameter \<open>strIndex\<close>.
\<close>

fun elementIndex :: "(string \<Rightarrow> nat option) \<Rightarrow> segment option \<Rightarrow> nat option" where
  "elementIndex strIndex None = None"
| "elementIndex strIndex (Some (Index n)) = Some n"
| "elementIndex strIndex (Some (Key s)) = strIndex s"

subsection \<open>Assignment and deletion\<close>

text \<open>\<^verbatim>\<open>xs[n] = v\<close>: inside the array the element is replaced; beyond its end the array
  grows to length \<open>n + 1\<close>, the positions in between being holes; from \<open>2\<^sup>3\<^sup>2 - 1\<close> on, \<open>n\<close>
  is no array index and the elements stay as they are.\<close>

definition assignElement :: "'n jsval list \<Rightarrow> nat \<Rightarrow> 'n jsval \<Rightarrow> 'n jsval list" where
  "assignElement xs n v =
     (if n < length xs then xs[n := v]
      else if n < 4294967295 then xs @ replicate (n - length xs) JUndefined @ [v]
      else xs)"

fun replaceProperty :: "string \<Rightarrow> 'v \<Rightarrow> (string \<times> 'v) list \<Rightarrow> (string \<times> 'v) list" where
  "replaceProperty k v [] = []"
| "replaceProperty k v ((k', v') # m) =
     (if k' = k then (k, v) # m else (k', v') # replaceProperty k v m)"

fun insertIndexed :: "nat \<Rightarrow> string \<Rightarrow> 'v \<Rightarrow> (string \<times> 'v) list \<Rightarrow> (string \<times> 'v) list" where
  "insertIndexed i k v [] = [(k, v)]"
| "insertIndexed i k v ((k', v') # m) =
     (case arrayIndex k' of
        Some j \<Rightarrow> if j < i then (k', v') # insertIndexed i k v m else (k, v) # (k', v') # m
      | None \<Rightarrow> (k, v) # (k', v') # m)"

text \<open>\<^verbatim>\<open>obj[k] = v\<close> on a plain object: an own property keeps its place; a new key
  \<^verbatim>\<open>__proto__\<close> reaches the prototype's setter and creates no property; another new key
  is created, among the array indices when it is one and last otherwise.\<close>

definition assignProperty :: "(string \<times> 'v) list \<Rightarrow> string \<Rightarrow> 'v \<Rightarrow> (string \<times> 'v) list" where
  "assignProperty m k v =
     (if k \<in> fst ` set m then replaceProperty k v m
      else if k = ''__proto__'' then m
      else case arrayIndex k of
             Some i \<Rightarrow> insertIndexed i k v m
           | None \<Rightarrow> m @ [(k, v)])"

text \<open>\<^verbatim>\<open>delete obj[k]\<close>.\<close>

definition deleteProperty :: "(string \<times> 'v) list \<Rightarrow> string \<Rightarrow> (string \<times> 'v) list" where
  "deleteProperty m k = filter (\<lambda>kv. fst kv \<noteq> k) m"

section \<open>The edit dialog: \<^verbatim>\<open>updateJsonAtPath\<close>\<close>

text \<open>
  The last statement of \<^verbatim>\<open>updateJsonAtPath\<close>, on the parent \<open>current\<close> that the loop
  reached. \<open>renamedKey\<close> is the key of the second branch, taken under
  \<^verbatim>\<open>newKey && newKey !== lastSegment\<close>: the new key must be given and not empty, and
  the comparison is of a string with the segment as it is, so it holds whenever the
  segment is a number or \<^verbatim>\<open>undefined\<close>. On \<^verbatim>\<open>undefined\<close> and
  \<^verbatim>\<open>null\<close> every access throws; on another primitive the assignment throws (module code
  is strict).
\<close>

fun renamedKey :: "string option \<Rightarrow> segment option \<Rightarrow> string option" where
  "renamedKey None lastSegment = None"
| "renamedKey (Some k) (Some (Key s)) = (if k \<noteq> [] \<and> k \<noteq> s then Some k else None)"
| "renamedKey (Some k) lastSegment = (if k \<noteq> [] then Some k else None)"

fun assignLast ::
  "(string \<Rightarrow> nat option) \<Rightarrow> 'n jsval \<Rightarrow> segment option \<Rightarrow> 'n jsval \<Rightarrow> string option
     \<Rightarrow> js_error + 'n jsval" where
  "assignLast strIndex (JArr xs) lastSegment newValue newKey =
     (case elementIndex strIndex lastSegment of
        Some n \<Rightarrow> Inr (JArr (assignElement xs n newValue))
      | None \<Rightarrow> Inr (JArr xs))"
| "assignLast strIndex (JObj m) lastSegment newValue newKey =
     (case renamedKey newKey lastSegment of
        Some k \<Rightarrow> Inr (JObj (assignProperty (deleteProperty m (propertyKey lastSegment)) k newValue))
      | None \<Rightarrow> Inr (JObj (assignProperty m (propertyKey lastSegment) newValue)))"
| "assignLast strIndex current lastSegment newValue newKey = Inl TypeError"

text \<open>
  \<^verbatim>\<open>updateJsonAtPath(obj, path, newValue, newKey)\<close> changes \<open>obj\<close> in place and returns
  nothing; the model returns the tree after the call, or the error thrown. The loop
  reads \<^verbatim>\<open>current[Number(segment)]\<close> in an array and \<^verbatim>\<open>current[segment]\<close> otherwise.
  A read of a missing element or property gives \<^verbatim>\<open>undefined\<close>, and what follows (one
  more read, or the assignment) throws on it; a read on a primitive gives a primitive or
  \<^verbatim>\<open>undefined\<close>, with the same end. Nothing is written before an error.
\<close>

fun updateJsonAtPath ::
  "(string \<Rightarrow> nat option) \<Rightarrow> 'n jsval \<Rightarrow> segment list \<Rightarrow> 'n jsval \<Rightarrow> string option
     \<Rightarrow> js_error + 'n jsval" where
  "updateJsonAtPath strIndex current [] newValue newKey =
     assignLast strIndex current None newValue newKey"
| "updateJsonAtPath strIndex current [lastSegment] newValue newKey =
     assignLast strIndex current (Some lastSegment) newValue newKey"
| "updateJsonAtPath strIndex (JArr xs) (segment # s # path) newValue newKey =
     (case elementIndex strIndex (Some segment) of
        Some n \<Rightarrow>
          if n < length xs
          then (case updateJsonAtPath strIndex (xs ! n) (s # path) newValue newKey of
                  Inr child \<Rightarrow> Inr (JArr (xs[n := child]))
                | Inl e \<Rightarrow> Inl e)
          else Inl TypeError
      | None \<Rightarrow> Inl TypeError)"
| "updateJsonAtPath strIndex (JObj m) (segment # s # path) newValue newKey =
     (case map_of m (propertyKey (Some segment)) of
        Some c \<Rightarrow>
          (case updateJsonAtPath strIndex c (s # path) newValue newKey of
             Inr child \<Rightarrow> Inr (JObj (replaceProperty (propertyKey (Some segment)) child m))
           | Inl e \<Rightarrow> Inl e)
      | None \<Rightarrow> Inl TypeError)"
| "updateJsonAtPath strIndex current (segment # s # path) newValue newKey = Inl TypeError"

subsection \<open>Paths into a document\<close>

text \<open>
  The value a path addresses: a number selects an element of an array inside its bounds,
  a string selects a member of an object.
\<close>

fun resolve :: "'n jsval \<Rightarrow> segment list \<Rightarrow> 'n jsval option" where
  "resolve v [] = Some v"
| "resolve (JArr xs) (Index n # p) = (if n < length xs then resolve (xs ! n) p else None)"
| "resolve (JObj m) (Key k # p) = (case map_of m k of Some c \<Rightarrow> resolve c p | None \<Rightarrow> None)"
| "resolve v (s # p) = None"

fun is_scalar :: "'n jsval \<Rightarrow> bool" where
  "is_scalar JNull = True"
| "is_scalar (JBool b) = True"
| "is_scalar (JNum n) = True"
| "is_scalar (JStr s) = True"
| "is_scalar v = False"

text \<open>The shape of a value: a sequence with its length, a mapping with its keys in
  order, or neither.\<close>

datatype layout = Primitive | Sequence nat | Members "string list"

fun shape :: "'n jsval \<Rightarrow> layout" where
  "shape (JArr xs) = Sequence (length xs)"
| "shape (JObj m) = Members (map fst m)"
| "shape v = Primitive"

text \<open>
  What one call changes, seen through \<open>resolve\<close>: the tree \<open>v'\<close> holds \<open>parent'\<close> at
  the path \<open>q\<close>, agrees with \<open>v\<close> off that path, and keeps the shape of every value
  above it.
\<close>

definition changed_at :: "'n jsval \<Rightarrow> 'n jsval \<Rightarrow> segment list \<Rightarrow> 'n jsval \<Rightarrow> bool" where
  "changed_at v v' q parent' =
     (resolve v' q = Some parent'
      \<and> (\<forall>t. resolve v' (q @ t) = resolve parent' t)
      \<and> (\<forall>r. \<not> prefix q r \<longrightarrow> \<not> prefix r q \<longrightarrow> resolve v' r = resolve v r)
      \<and> (\<forall>r. strict_prefix r q \<longrightarrow>
             map_option shape (resolve v' r) = map_option shape (resolve v r)))"

definition scalar_child :: "'n jsval \<Rightarrow> segment \<Rightarrow> 'n jsval \<Rightarrow> 'n jsval \<Rightarrow> bool" where
  "scalar_child parent s x parent' =
     (resolve parent' [s] = Some x
      \<and> (\<forall>t. \<not> prefix t [s] \<longrightarrow> resolve parent' t = resolve parent t)
      \<and> (\<forall>t. map_option shape (resolve parent' t) = map_option shape (resolve parent t)))"

section \<open>The edit dialog: coercion of the edited value\<close>

text \<open>
  What the dialogs use of the runtime and cannot be written down here: the number
  conversions (doubles), and the JSON parser and printer. \<open>JSON_parse\<close> gives \<open>None\<close>
  where \<^verbatim>\<open>JSON.parse\<close> throws a \<^verbatim>\<open>SyntaxError\<close>; \<open>JSON_stringify\<close> is
  \<^verbatim>\<open>JSON.stringify(v, null, 2)\<close>.
\<close>

record 'n runtime =
  Number :: "'n jsval \<Rightarrow> 'n"
  isNaN :: "'n \<Rightarrow> bool"
  numZero :: 'n
  numberToString :: "'n \<Rightarrow> string"
  indexOfString :: "string \<Rightarrow> nat option"
  JSON_parse :: "string \<Rightarrow> 'n jsval option"
  JSON_stringify :: "'n jsval \<Rightarrow> string"

text \<open>\<^verbatim>\<open>Array.prototype.join\<close> on strings.\<close>

fun join :: "string \<Rightarrow> string list \<Rightarrow> string" where
  "join sep [] = []"
| "join sep [x] = x"
| "join sep (x # y # ys) = x @ sep @ join sep (y # ys)"

text \<open>\<^verbatim>\<open>String(value)\<close>, which is also what a template literal writes. An array is its
  elements joined by commas, \<^verbatim>\<open>undefined\<close> and \<^verbatim>\<open>null\<close> among them being empty.\<close>

fun js_String :: "('n \<Rightarrow> string) \<Rightarrow> 'n jsval \<Rightarrow> string" where
  "js_String num JUndefined = ''undefined''"
| "js_String num JNull = ''null''"
| "js_String num (JBool b) = (if b then ''true'' else ''false'')"
| "js_String num (JNum n) = num n"
| "js_String num (JStr s) = s"
| "js_String num (JArr xs) =
     join '','' (map (\<lambda>x. if x = JUndefined \<or> x = JNull then [] else js_String num x) xs)"
| "js_String num (JObj m) = ''[object Object]''"

definition parseValue :: "'n runtime \<Rightarrow> 'n jsval \<Rightarrow> string \<Rightarrow> 'n jsval" where
  "parseValue rt value type =
     (if type = ''null'' then JNull
      else if type = ''boolean'' then JBool (value = JStr ''true'' \<or> value = JBool True)
      else if type = ''number''
        then (let num = Number rt value in if isNaN rt num then JNum (numZero rt) else JNum num)
      else JStr (js_String (numberToString rt) value))"

fun valueToString :: "'n runtime \<Rightarrow> 'n jsval \<Rightarrow> string" where
  "valueToString rt JNull = []"
| "valueToString rt (JBool b) = (if b then ''true'' else ''false'')"
| "valueToString rt value = js_String (numberToString rt) value"

section \<open>The edit dialog: \<^verbatim>\<open>handleSave\<close>\<close>

subsection \<open>Key validation\<close>

text \<open>
  The white space that \<^verbatim>\<open>String.prototype.trim\<close> removes, each code point as the bytes
  of its UTF-8 encoding: tab, line feed, vertical tab, form feed, carriage return, space,
  U+00A0, U+1680, U+2000 to U+200A, U+2028, U+2029, U+202F, U+205F, U+3000 and U+FEFF.
\<close>

definition whiteSpace :: "string list" where
  "whiteSpace =
     [[CHR 0x09], [CHR 0x0A], [CHR 0x0B], [CHR 0x0C], [CHR 0x0D], [CHR 0x20],
      [CHR 0xC2, CHR 0xA0], [CHR 0xE1, CHR 0x9A, CHR 0x80]]
     @ map (\<lambda>b. [CHR 0xE2, CHR 0x80, b])
         [CHR 0x80, CHR 0x81, CHR 0x82, CHR 0x83, CHR 0x84, CHR 0x85, CHR 0x86, CHR 0x87,
          CHR 0x88, CHR 0x89, CHR 0x8A, CHR 0xA8, CHR 0xA9, CHR 0xAF]
     @ [[CHR 0xE2, CHR 0x81, CHR 0x9F], [CHR 0xE3, CHR 0x80, CHR 0x80],
        [CHR 0xEF, CHR 0xBB, CHR 0xBF]]"

text \<open>Dropping the leading tokens of a list \<open>ws\<close> of non-empty tokens; an empty token
  is never dropped.\<close>

function dropTokens :: "string list \<Rightarrow> string \<Rightarrow> string" where
  "dropTokens ws s =
     (case find (\<lambda>w. w \<noteq> [] \<and> prefix w s) ws of
        Some w \<Rightarrow> dropTokens ws (drop (length w) s)
      | None \<Rightarrow> s)"
  by pat_completeness auto
termination
  by (relation "measure (\<lambda>(ws, s). length s)") (auto simp: find_Some_iff prefix_def)

definition trim :: "string \<Rightarrow> string" where
  "trim s = rev (dropTokens (map rev whiteSpace) (rev (dropTokens whiteSpace s)))"

text \<open>\<^verbatim>\<open>/^[a-zA-Z_$][a-zA-Z0-9_$]*$/.test(key)\<close>\<close>

definition identifierStart :: "char \<Rightarrow> bool" where
  "identifierStart c =
     (let n = (of_char c :: nat)
      in (97 \<le> n \<and> n \<le> 122) \<or> (65 \<le> n \<and> n \<le> 90) \<or> c = CHR ''_'' \<or> c = CHR ''$'')"

definition identifierPart :: "char \<Rightarrow> bool" where
  "identifierPart c = (identifierStart c \<or> is_digit c)"

fun identifierPattern :: "string \<Rightarrow> bool" where
  "identifierPattern [] = False"
| "identifierPattern (c # cs) = (identifierStart c \<and> list_all identifierPart cs)"

text \<open>
  Lines 117 to 126 of \<^verbatim>\<open>handleSave\<close>: the message of the validation that stops the
  save, \<open>None\<close> when the save goes on. The validation is inside
  \<^verbatim>\<open>if (editState.key && ...)\<close>: \<^verbatim>\<open>null\<close> and the empty string are not validated.
\<close>

definition validateKey :: "string option \<Rightarrow> string option" where
  "validateKey key =
     (case key of
        None \<Rightarrow> None
      | Some k \<Rightarrow>
          if k = [] then None
          else if trim k = [] then Some ''Key cannot be empty''
          else if identifierPattern k then None
          else Some ''Key must be a valid identifier'')"

subsection \<open>The node snapshot and the stores\<close>

text \<open>
  Modelled from the spec: the type \<^verbatim>\<open>NodeData\<close> (\<^verbatim>\<open>types/graph\<close>, not among the
  sources), the node snapshot: rows of key, value and type, and the path of the node.
  The fields are the ones the dialogs read: \<^verbatim>\<open>key\<close> may be \<^verbatim>\<open>null\<close>, \<^verbatim>\<open>path\<close> is
  optional (\<^verbatim>\<open>path?: NodeData["path"]\<close>), and both dialogs test whether \<^verbatim>\<open>text\<close> is
  there.
\<close>

record 'n row =
  row_key :: "string option"
  row_value :: "'n jsval"
  row_type :: string

record 'n nodeData =
  node_text :: "'n row list option"
  node_path :: "segment list option"

text \<open>What \<^verbatim>\<open>setError\<close> and the toasts show: a message of the dialog's own, or the
  message of an error that was caught.\<close>

datatype notice = Message string | Thrown js_error

datatype toast = Success string | Failure notice

text \<open>
  Modelled from the spec: the stores \<^verbatim>\<open>useGraph\<close>, \<^verbatim>\<open>useJson\<close> and \<^verbatim>\<open>useFile\<close>, which
  are not among the sources. The graph store holds the selected node and replaces it on
  \<^verbatim>\<open>setSelectedNode\<close>; the document text is read from \<^verbatim>\<open>useJson\<close>; \<^verbatim>\<open>setContents\<close>
  stores the new text and the flag in \<^verbatim>\<open>useFile\<close>. Beside them the state holds what
  \<^verbatim>\<open>handleSave\<close> reads and writes in the dialog: the form (\<^verbatim>\<open>editState\<close>),
  \<^verbatim>\<open>isLoading\<close>, \<^verbatim>\<open>error\<close>, the toasts shown, whether the dialog is open, and whether
  the timer that shows \<^verbatim>\<open>NodeModal\<close> again is set.
\<close>

record 'n editNodeModal =
  selectedNode :: "'n nodeData option"
  json :: string
  contents :: string
  hasChanges :: bool
  editKey :: "string option"
  editValue :: "'n jsval"
  editType :: string
  isLoading :: bool
  error :: "notice option"
  toasts :: "toast list"
  opened :: bool
  reopenNodeModal :: bool

text \<open>A key that counts as given: neither \<^verbatim>\<open>null\<close> nor empty.\<close>

fun truthy :: "string option \<Rightarrow> bool" where
  "truthy None = False"
| "truthy (Some k) = (k \<noteq> [])"

text \<open>\<^verbatim>\<open>selectedNode?.path\<close>\<close>

definition nodePath :: "'n editNodeModal \<Rightarrow> segment list option" where
  "nodePath st = (case selectedNode st of None \<Rightarrow> None | Some node \<Rightarrow> node_path node)"

text \<open>The row that replaces the first row of the selected node after a save.\<close>

definition updatedRow :: "'n editNodeModal \<Rightarrow> 'n jsval \<Rightarrow> 'n row \<Rightarrow> 'n row" where
  "updatedRow st newValue row =
     row\<lparr>row_key := (if truthy (editKey st) then editKey st else row_key row),
         row_value := (case newValue of
                         JBool b \<Rightarrow> JStr (if b then ''true'' else ''false'')
                       | _ \<Rightarrow> newValue),
         row_type := editType st\<rparr>"

text \<open>The \<^verbatim>\<open>try\<close> block of \<^verbatim>\<open>handleSave\<close> from line 111 on: the state at its end or
  at a \<^verbatim>\<open>return\<close>, or the error thrown. \<^verbatim>\<open>selectedNode.text[0]\<close> is
  \<^verbatim>\<open>undefined\<close> for an empty list and reading its \<^verbatim>\<open>key\<close> throws.\<close>

definition saveAttempt :: "'n runtime \<Rightarrow> 'n editNodeModal \<Rightarrow> js_error + 'n editNodeModal" where
  "saveAttempt rt st =
     (case selectedNode st of
        None \<Rightarrow> Inr (st\<lparr>error := Some (Message ''Unable to determine node path'')\<rparr>)
      | Some node \<Rightarrow>
     (case node_path node of
        None \<Rightarrow> Inr (st\<lparr>error := Some (Message ''Unable to determine node path'')\<rparr>)
      | Some path \<Rightarrow>
     (case validateKey (editKey st) of
        Some message \<Rightarrow> Inr (st\<lparr>error := Some (Message message)\<rparr>)
      | None \<Rightarrow>
     (case JSON_parse rt (json st) of
        None \<Rightarrow> Inl SyntaxError
      | Some parsedJson \<Rightarrow>
     (let newValue = parseValue rt (editValue st) (editType st) in
      case node_text node of
        None \<Rightarrow> Inl TypeError
      | Some [] \<Rightarrow> Inl TypeError
      | Some (textRow # rows) \<Rightarrow>
     (let targetPath = path @ (case row_key textRow of
                                 Some k \<Rightarrow> if k \<noteq> [] then [Key k] else []
                               | None \<Rightarrow> []);
          newKey = (if truthy (editKey st) \<and> editKey st \<noteq> row_key textRow
                    then editKey st else None)
      in case updateJsonAtPath (indexOfString rt) parsedJson targetPath newValue newKey of
           Inl e \<Rightarrow> Inl e
         | Inr updated \<Rightarrow>
             Inr (st\<lparr>contents := JSON_stringify rt updated,
                     hasChanges := True,
                     selectedNode :=
                       Some (node\<lparr>node_text := Some (updatedRow st newValue textRow # rows)\<rparr>),
                     toasts := toasts st @ [Success ''Node updated successfully''],
                     opened := False,
                     reopenNodeModal := True\<rparr>)))))))"

text \<open>\<^verbatim>\<open>handleSave\<close> with its \<^verbatim>\<open>catch\<close> and \<^verbatim>\<open>finally\<close>. The function is
  \<^verbatim>\<open>async\<close> and awaits nothing, so it runs to its end in one step.\<close>

definition handleSave :: "'n runtime \<Rightarrow> 'n editNodeModal \<Rightarrow> 'n editNodeModal" where
  "handleSave rt st =
     (let st1 = st\<lparr>isLoading := True, error := None\<rparr>;
          st2 = (case saveAttempt rt st1 of
                   Inr st' \<Rightarrow> st'
                 | Inl e \<Rightarrow> st1\<lparr>error := Some (Thrown e),
                                 toasts := toasts st1 @ [Failure (Thrown e)]\<rparr>)
      in st2\<lparr>isLoading := False\<rparr>)"

subsection \<open>A runtime and a dialog for the examples\<close>

text \<open>
  A runtime cut down to a table of JSON texts: \<open>JSON_parse\<close> reads the texts of the table
  and nothing else, \<open>JSON_stringify\<close> answers the first text the table has for a value.
  Its numbers are integers, so there is no \<^verbatim>\<open>NaN\<close>; its \<open>Number\<close> reads numbers only
  and its \<open>indexOfString\<close> reads array indices in canonical form only. The examples
  below convert no number and no string.
\<close>

definition tableRuntime :: "(string \<times> int jsval) list \<Rightarrow> int runtime" where
  "tableRuntime table =
     \<lparr>Number = (\<lambda>v. case v of JNum n \<Rightarrow> n | _ \<Rightarrow> 0),
      isNaN = (\<lambda>n. False),
      numZero = 0,
      numberToString = (\<lambda>n. (if n < 0 then ''-'' else []) @ decimal (nat \<bar>n\<bar>)),
      indexOfString = arrayIndex,
      JSON_parse = map_of table,
      JSON_stringify = (\<lambda>v. case find (\<lambda>e. snd e = v) table of Some e \<Rightarrow> fst e | None \<Rightarrow> [])\<rparr>"

text \<open>The text of \<^verbatim>\<open>{"a": "x"}\<close> as \<^verbatim>\<open>JSON.stringify(v, null, 2)\<close> prints it, the
  text \<^verbatim>\<open>{"a":1}\<close>, and the text of \<^verbatim>\<open>{"1": 2, "b": 1}\<close> as it is printed.\<close>

definition exampleTexts :: "(string \<times> int jsval) list" where
  \<open>exampleTexts =
     [(''{'' @ [CHR 0x0A] @ ''  "a": "x"'' @ [CHR 0x0A] @ ''}'', JObj [(''a'', JStr ''x'')]),
      (''{"a":1}'', JObj [(''a'', JNum 1)]),
      (''{'' @ [CHR 0x0A] @ ''  "1": 2,'' @ [CHR 0x0A] @ ''  "b": 1'' @ [CHR 0x0A] @ ''}'',
       JObj [(''1'', JNum 2), (''b'', JNum 1)])]\<close>

text \<open>The dialog open on the node of \<^verbatim>\<open>{"a":1}\<close>, the document holding \<open>text\<close>, with
  the key field holding \<open>k\<close> and the value field the string \<^verbatim>\<open>x\<close>.\<close>

definition exampleModal :: "string option \<Rightarrow> string \<Rightarrow> int editNodeModal" where
  "exampleModal k text =
     \<lparr>selectedNode = Some \<lparr>node_text = Some [\<lparr>row_key = Some ''a'', row_value = JNum 1,
                                                 row_type = ''number''\<rparr>],
                            node_path = Some []\<rparr>,
      json = text, contents = text, hasChanges = False,
      editKey = k, editValue = JStr ''x'', editType = ''string'',
      isLoading = False, error = None, toasts = [], opened = True, reopenNodeModal = False\<rparr>"

section \<open>The inspector dialog\<close>




text \<open>
  A segment as \<^verbatim>\<open>jsonPathToString\<close> writes it (the function of \<^verbatim>\<open>path.map\<close> and the
  conversion that \<^verbatim>\<open>join\<close> applies to its result). A number stays a number and is
  printed by the runtime. Below \<open>2\<^sup>5\<^sup>3\<close> every integer is a number of its own and is
  printed as its decimal digits; from there on the runtime prints the shortest digits
  that tell the double apart, filled up with zeros (\<^verbatim>\<open>9223372036854776000\<close> for
  \<open>2\<^sup>6\<^sup>3\<close>) or in exponent form (\<^verbatim>\<open>1e+21\<close>), which is the parameter \<open>largeNumber\<close>. A
  string is put in double quotes as it is.
\<close>

fun segmentText :: "(nat \<Rightarrow> string) \<Rightarrow> segment \<Rightarrow> string" where
  "segmentText largeNumber (Index n) =
     (if n < 9007199254740992 then decimal n else largeNumber n)"
| "segmentText largeNumber (Key s) = [CHR 0x22] @ s @ [CHR 0x22]"

definition jsonPathToString :: "(nat \<Rightarrow> string) \<Rightarrow> segment list option \<Rightarrow> string" where
  "jsonPathToString largeNumber path =
     (case path of
        None \<Rightarrow> ''$''
      | Some p \<Rightarrow>
          if length p = 0 then ''$''
          else ''$['' @ join '']['' (map (segmentText largeNumber) p) @ '']'')"

definition isEditableNode :: "'n nodeData option \<Rightarrow> bool" where
  "isEditableNode nodeData =
     (case nodeData of
        None \<Rightarrow> False
      | Some node \<Rightarrow>
          (case node_text node of
             None \<Rightarrow> False
           | Some rows \<Rightarrow>
               if length rows = 0 then False
               else row_type (rows ! 0) \<noteq> ''object'' \<and> row_type (rows ! 0) \<noteq> ''array''))"

section \<open>The two dialogs together\<close>


text \<open>
  Modelled from the spec: the store \<^verbatim>\<open>useModal\<close>, which is not among the sources, as
  the visibility of the two dialogs that \<^verbatim>\<open>setVisible\<close> and \<^verbatim>\<open>onClose\<close> switch. The
  state of the two dialogs is the state of the edit dialog (\<open>opened\<close> is the visibility
  of the edit dialog, \<open>reopenNodeModal\<close> the timer that shows the inspector again),
  the visibility of the inspector, and whether the timer that \<^verbatim>\<open>handleEdit\<close> sets is
  running.
\<close>

record 'n dialogs =
  editDialog :: "'n editNodeModal"
  nodeModal :: bool
  editTimer :: bool

text \<open>\<^verbatim>\<open>handleEdit\<close> of the inspector: \<^verbatim>\<open>onClose()\<close>, and a timer of 100 ms that
  will show the edit dialog.\<close>

definition handleEdit :: "'n dialogs \<Rightarrow> 'n dialogs" where
  "handleEdit d = d\<lparr>nodeModal := False, editTimer := True\<rparr>"

text \<open>
  A press of the button \<^verbatim>\<open>Edit Node\<close>. The open inspector renders the button under
  \<^verbatim>\<open>isEditable\<close>, which it computes from the selected node; where there is no button
  there is no press.
\<close>

definition clickEditNode :: "'n dialogs \<Rightarrow> 'n dialogs" where
  "clickEditNode d =
     (if nodeModal d \<and> isEditableNode (selectedNode (editDialog d)) then handleEdit d else d)"




subsection \<open>Documents and dialogs for the examples\<close>

text \<open>
  The document \<^verbatim>\<open>{"a":1,"b":2,"c":3}\<close> with the texts, as they are printed, of
  \<^verbatim>\<open>{"b": 1, "c": 3}\<close> and \<^verbatim>\<open>{"b": 2, "c": 3}\<close>, and the edit dialog open on its node
  with \<open>k\<close> typed into the key field of the row \<^verbatim>\<open>a\<close>, whose value 1 is left as it is.
\<close>

definition renameTexts :: "(string \<times> int jsval) list" where
  \<open>renameTexts =
     [(''{"a":1,"b":2,"c":3}'', JObj [(''a'', JNum 1), (''b'', JNum 2), (''c'', JNum 3)]),
      (''{'' @ [CHR 0x0A] @ ''  "b": 1,'' @ [CHR 0x0A] @ ''  "c": 3'' @ [CHR 0x0A] @ ''}'',
       JObj [(''b'', JNum 1), (''c'', JNum 3)]),
      (''{'' @ [CHR 0x0A] @ ''  "b": 2,'' @ [CHR 0x0A] @ ''  "c": 3'' @ [CHR 0x0A] @ ''}'',
       JObj [(''b'', JNum 2), (''c'', JNum 3)])]\<close>

definition renameModal :: "string \<Rightarrow> int editNodeModal" where
  \<open>renameModal k =
     \<lparr>selectedNode =
        Some \<lparr>node_text = Some [\<lparr>row_key = Some ''a'', row_value = JNum 1, row_type = ''number''\<rparr>,
                                \<lparr>row_key = Some ''b'', row_value = JNum 2, row_type = ''number''\<rparr>,
                                \<lparr>row_key = Some ''c'', row_value = JNum 3, row_type = ''number''\<rparr>],
              node_path = Some []\<rparr>,
      json = ''{"a":1,"b":2,"c":3}'', contents = ''{"a":1,"b":2,"c":3}'', hasChanges = False,
      editKey = Some k, editValue = JNum 1, editType = ''number'',
      isLoading = False, error = None, toasts = [], opened = True, reopenNodeModal = False\<rparr>\<close>





section \<open>Properties of \<^verbatim>\<open>updateJsonAtPath\<close>\<close>

subsection \<open>Lists of properties and paths\<close>


lemma map_of_replaceProperty:
  "map_of (replaceProperty k v m) j = (if j = k \<and> k \<in> fst ` set m then Some v else map_of m j)"
  by (induction m) force+

lemma keys_replaceProperty: "map fst (replaceProperty k v m) = map fst m"
  by (induction m) auto

lemma resolve_append:
  "resolve v (q @ t) = (case resolve v q of Some w \<Rightarrow> resolve w t | None \<Rightarrow> None)"
  by (induction v q rule: resolve.induct) (auto split: option.splits)

lemma updateJsonAtPath_JArr_Cons:
  "p \<noteq> [] \<Longrightarrow> updateJsonAtPath N (JArr xs) (Index n # p) x nk =
     (if n < length xs
      then (case updateJsonAtPath N (xs ! n) p x nk of
              Inr c \<Rightarrow> Inr (JArr (xs[n := c])) | Inl e \<Rightarrow> Inl e)
      else Inl TypeError)"
  by (cases p) simp_all

lemma updateJsonAtPath_JObj_Cons:
  "p \<noteq> [] \<Longrightarrow> updateJsonAtPath N (JObj m) (Key k # p) x nk =
     (case map_of m k of
        Some c \<Rightarrow> (case updateJsonAtPath N c p x nk of
                     Inr c' \<Rightarrow> Inr (JObj (replaceProperty k c' m)) | Inl e \<Rightarrow> Inl e)
      | None \<Rightarrow> Inl TypeError)"
  by (cases p) (auto split: option.splits sum.splits)

lemma updateJsonAtPath_at_parent:
  assumes "resolve v q = Some parent"
    and "assignLast N parent (Some s) x nk = Inr parent'"
  shows "\<exists>v'. updateJsonAtPath N v (q @ [s]) x nk = Inr v' \<and> changed_at v v' q parent'"
  using assms
proof (induction v q rule: resolve.induct)
  case (1 v)
  then show ?case by (simp add: changed_at_def)
next
  case (2 xs n p)
  then have n: "n < length xs" and r: "resolve (xs ! n) p = Some parent"
    by (auto split: if_splits)
  from 2 n r obtain c where c: "updateJsonAtPath N (xs ! n) (p @ [s]) x nk = Inr c"
    and ch: "changed_at (xs ! n) c p parent'" by blast
  have u: "updateJsonAtPath N (JArr xs) ((Index n # p) @ [s]) x nk = Inr (JArr (xs[n := c]))"
    using n c by (simp add: updateJsonAtPath_JArr_Cons)
  have "changed_at (JArr xs) (JArr (xs[n := c])) (Index n # p) parent'"
    unfolding changed_at_def
  proof (intro conjI allI impI)
    show "resolve (JArr (xs[n := c])) (Index n # p) = Some parent'"
      using n ch by (simp add: changed_at_def)
    show "resolve (JArr (xs[n := c])) ((Index n # p) @ t) = resolve parent' t" for t
      using n ch by (simp add: changed_at_def)
    show "resolve (JArr (xs[n := c])) r = resolve (JArr xs) r"
      if "\<not> prefix (Index n # p) r" "\<not> prefix r (Index n # p)" for r
    proof (cases r)
      case Nil
      with that show ?thesis by simp
    next
      case (Cons a r')
      show ?thesis
      proof (cases a)
        case (Index j)
        show ?thesis
        proof (cases "j = n")
          case True
          with that Cons Index have "\<not> prefix p r'" "\<not> prefix r' p" by auto
          with ch have "resolve c r' = resolve (xs ! n) r'" by (simp add: changed_at_def)
          with True Cons Index n show ?thesis by simp
        next
          case False
          with Cons Index show ?thesis by simp
        qed
      next
        case (Key k)
        with Cons show ?thesis by simp
      qed
    qed
    show "map_option shape (resolve (JArr (xs[n := c])) r) = map_option shape (resolve (JArr xs) r)"
      if "strict_prefix r (Index n # p)" for r
    proof (cases r)
      case Nil
      then show ?thesis by simp
    next
      case (Cons a r')
      with that have "a = Index n" "strict_prefix r' p" by (auto simp: strict_prefix_def)
      with ch Cons n show ?thesis by (simp add: changed_at_def)
    qed
  qed
  with u show ?case by blast
next
  case (3 m k p)
  then obtain child where m: "map_of m k = Some child" and r: "resolve child p = Some parent"
    by (auto split: option.splits)
  from 3 m r obtain c where c: "updateJsonAtPath N child (p @ [s]) x nk = Inr c"
    and ch: "changed_at child c p parent'" by blast
  have k: "k \<in> fst ` set m" using m by (metis map_of_eq_None_iff option.distinct(1))
  have u: "updateJsonAtPath N (JObj m) ((Key k # p) @ [s]) x nk = Inr (JObj (replaceProperty k c m))"
    using m c by (simp add: updateJsonAtPath_JObj_Cons)
  have "changed_at (JObj m) (JObj (replaceProperty k c m)) (Key k # p) parent'"
    unfolding changed_at_def
  proof (intro conjI allI impI)
    show "resolve (JObj (replaceProperty k c m)) (Key k # p) = Some parent'"
      using k ch by (simp add: changed_at_def map_of_replaceProperty)
    show "resolve (JObj (replaceProperty k c m)) ((Key k # p) @ t) = resolve parent' t" for t
      using k ch by (simp add: changed_at_def map_of_replaceProperty)
    show "resolve (JObj (replaceProperty k c m)) r = resolve (JObj m) r"
      if "\<not> prefix (Key k # p) r" "\<not> prefix r (Key k # p)" for r
    proof (cases r)
      case Nil
      with that show ?thesis by simp
    next
      case (Cons a r')
      show ?thesis
      proof (cases a)
        case (Index j)
        with Cons show ?thesis by simp
      next
        case (Key j)
        show ?thesis
        proof (cases "j = k")
          case True
          with that Cons Key have "\<not> prefix p r'" "\<not> prefix r' p" by auto
          with ch have "resolve c r' = resolve child r'" by (simp add: changed_at_def)
          with True Cons Key k m show ?thesis by (simp add: map_of_replaceProperty)
        next
          case False
          with Cons Key show ?thesis by (simp add: map_of_replaceProperty)
        qed
      qed
    qed
    show "map_option shape (resolve (JObj (replaceProperty k c m)) r)
            = map_option shape (resolve (JObj m) r)"
      if "strict_prefix r (Key k # p)" for r
    proof (cases r)
      case Nil
      then show ?thesis by (simp add: keys_replaceProperty)
    next
      case (Cons a r')
      with that have "a = Key k" "strict_prefix r' p" by (auto simp: strict_prefix_def)
      with ch Cons k m show ?thesis by (simp add: changed_at_def map_of_replaceProperty)
    qed
  qed
  with u show ?case by blast
qed simp_all

lemma resolve_scalar: "is_scalar w \<Longrightarrow> t \<noteq> [] \<Longrightarrow> resolve w t = None"
  by (cases w; cases t) simp_all

lemma assignLast_scalar: "is_scalar w \<Longrightarrow> assignLast N w l x nk = Inl TypeError"
  by (cases w) simp_all

lemma assignProperty_own: "k \<in> fst ` set m \<Longrightarrow> assignProperty m k v = replaceProperty k v m"
  by (simp add: assignProperty_def)

lemma map_of_own: "map_of m k = Some c \<Longrightarrow> k \<in> fst ` set m"
  by (metis map_of_eq_None_iff option.distinct(1))

lemma assignLast_scalar_child:
  assumes "resolve parent [s] = Some old" "is_scalar old" "is_scalar x"
  shows "\<exists>parent'. assignLast N parent (Some s) x None = Inr parent'
           \<and> scalar_child parent s x parent'"
proof (cases parent)
  case (JArr xs)
  with assms obtain n where s: "s = Index n" and n: "n < length xs" and old: "xs ! n = old"
    by (cases s) (auto split: if_splits)
  have a: "assignLast N parent (Some s) x None = Inr (JArr (xs[n := x]))"
    using JArr s n by (simp add: assignElement_def)
  have "scalar_child parent s x (JArr (xs[n := x]))"
    unfolding scalar_child_def
  proof (intro conjI allI impI)
    show "resolve (JArr (xs[n := x])) [s] = Some x" using s n by simp
    have sib: "resolve (JArr (xs[n := x])) t = resolve parent t" if "\<not> prefix t [s]" for t
    proof (cases t)
      case Nil
      with that show ?thesis by simp
    next
      case (Cons a t')
      show ?thesis
      proof (cases "a = s")
        case True
        with that Cons have "t' \<noteq> []" by auto
        with True Cons s n old assms JArr show ?thesis by (simp add: resolve_scalar)
      next
        case False
        with Cons s JArr show ?thesis by (cases a) auto
      qed
    qed
    show "resolve (JArr (xs[n := x])) t = resolve parent t" if "\<not> prefix t [s]" for t
      using sib that .
    show "map_option shape (resolve (JArr (xs[n := x])) t) = map_option shape (resolve parent t)" for t
    proof (cases "prefix t [s]")
      case True
      then have "t = [] \<or> t = [s]" by (cases t) auto
      then show ?thesis
      proof
        assume "t = []" then show ?thesis using JArr by simp
      next
        assume "t = [s]"
        then show ?thesis using JArr s n old assms by (cases old; cases x) simp_all
      qed
    next
      case False
      then show ?thesis by (simp add: sib)
    qed
  qed
  with a show ?thesis by blast
next
  case (JObj m)
  with assms obtain k where s: "s = Key k" and k: "map_of m k = Some old"
    by (cases s) (auto split: option.splits)
  have own: "k \<in> fst ` set m" using k by (rule map_of_own)
  have a: "assignLast N parent (Some s) x None = Inr (JObj (replaceProperty k x m))"
    using JObj s own by (simp add: assignProperty_own)
  have "scalar_child parent s x (JObj (replaceProperty k x m))"
    unfolding scalar_child_def
  proof (intro conjI allI impI)
    show "resolve (JObj (replaceProperty k x m)) [s] = Some x"
      using s own by (simp add: map_of_replaceProperty)
    have sib: "resolve (JObj (replaceProperty k x m)) t = resolve parent t" if "\<not> prefix t [s]" for t
    proof (cases t)
      case Nil
      with that show ?thesis by simp
    next
      case (Cons a t')
      show ?thesis
      proof (cases "a = s")
        case True
        with that Cons have "t' \<noteq> []" by auto
        with True Cons s own k assms JObj show ?thesis
          by (simp add: resolve_scalar map_of_replaceProperty)
      next
        case False
        with Cons s JObj show ?thesis by (cases a) (auto simp: map_of_replaceProperty)
      qed
    qed
    show "resolve (JObj (replaceProperty k x m)) t = resolve parent t" if "\<not> prefix t [s]" for t
      using sib that .
    show "map_option shape (resolve (JObj (replaceProperty k x m)) t)
            = map_option shape (resolve parent t)" for t
    proof (cases "prefix t [s]")
      case True
      then have "t = [] \<or> t = [s]" by (cases t) auto
      then show ?thesis
      proof
        assume "t = []" then show ?thesis using JObj by (simp add: keys_replaceProperty)
      next
        assume "t = [s]"
        then show ?thesis using JObj s own k assms
          by (cases old; cases x) (simp_all add: map_of_replaceProperty)
      qed
    next
      case False
      then show ?thesis by (simp add: sib)
    qed
  qed
  with a show ?thesis by blast
qed (use assms in simp_all)

subsection \<open>Replacing a scalar\<close>

text \<open>
  Claim C1. For a path \<open>p\<close> into \<open>v\<close> that addresses a scalar and a replacement scalar
  \<open>x\<close>, the call without a new key changes only the value at \<open>p\<close>: afterwards \<open>p\<close>
  addresses \<open>x\<close>, every path that is not a prefix of \<open>p\<close> addresses what it addressed
  before (so every sibling keeps its presence and its value), and every value of the
  document, the ancestors of the target among them, keeps its shape: an array its length,
  an object its keys in their order. The call returns for every non-empty path; at the
  empty path (a document that is one scalar) it throws and nothing is changed.
\<close>

theorem updateJsonAtPath_changes_only_target:
  assumes "resolve v p = Some old" and "is_scalar old" and "is_scalar x"
  shows "case updateJsonAtPath strIndex v p x None of
           Inl e \<Rightarrow> p = []
         | Inr v' \<Rightarrow>
             p \<noteq> [] \<and> resolve v' p = Some x
             \<and> (\<forall>r. \<not> prefix r p \<longrightarrow> resolve v' r = resolve v r)
             \<and> (\<forall>r. map_option shape (resolve v' r) = map_option shape (resolve v r))"
proof (cases p rule: rev_cases)
  case Nil
  with assms show ?thesis by (simp add: assignLast_scalar)
next
  case (snoc q s)
  with assms obtain parent where q: "resolve v q = Some parent"
    and ps: "resolve parent [s] = Some old"
    by (auto simp: resolve_append split: option.splits)
  from assignLast_scalar_child [OF ps assms(2,3)] obtain parent'
    where a: "assignLast strIndex parent (Some s) x None = Inr parent'"
      and sc: "scalar_child parent s x parent'" by blast
  from updateJsonAtPath_at_parent [OF q a] obtain v'
    where u: "updateJsonAtPath strIndex v (q @ [s]) x None = Inr v'"
      and ch: "changed_at v v' q parent'" by blast
  have under: "resolve v' (q @ t) = resolve parent' t" "resolve v (q @ t) = resolve parent t" for t
    using ch q by (simp_all add: changed_at_def resolve_append)
  have 1: "resolve v' p = Some x"
    using under(1) [of "[s]"] sc snoc by (simp add: scalar_child_def)
  have 2: "resolve v' r = resolve v r" if "\<not> prefix r p" for r
  proof (cases "prefix q r")
    case True
    then obtain t where r: "r = q @ t" by (auto simp: prefix_def)
    with that snoc have "\<not> prefix t [s]" by (cases t) auto
    with sc have "resolve parent' t = resolve parent t" by (simp add: scalar_child_def)
    with r under show ?thesis by simp
  next
    case False
    moreover have "\<not> prefix r q" using that snoc by (auto simp: prefix_def)
    ultimately show ?thesis using ch by (simp add: changed_at_def)
  qed
  have 3: "map_option shape (resolve v' r) = map_option shape (resolve v r)" for r
  proof (cases "prefix q r")
    case True
    then obtain t where r: "r = q @ t" by (auto simp: prefix_def)
    with sc under show ?thesis by (simp add: scalar_child_def)
  next
    case False
    show ?thesis
    proof (cases "prefix r q")
      case True
      with False have "strict_prefix r q" by (auto simp: strict_prefix_def)
      with ch show ?thesis by (simp add: changed_at_def)
    next
      case nq: False
      with False ch show ?thesis by (simp add: changed_at_def)
    qed
  qed
  from u snoc 1 2 3 show ?thesis by simp
qed

theorem updateJsonAtPath_changes_only_target_witness:
  "resolve (JObj [(''a'', JNum (1::int)), (''b'', JArr [JNum 10, JNum 20])]) [Key ''a'']
     = Some (JNum 1)
   \<and> is_scalar (JNum (1::int)) \<and> is_scalar (JNum (2::int))
   \<and> updateJsonAtPath arrayIndex
        (JObj [(''a'', JNum (1::int)), (''b'', JArr [JNum 10, JNum 20])]) [Key ''a'']
        (JNum 2) None
     = Inr (JObj [(''a'', JNum 2), (''b'', JArr [JNum 10, JNum 20])])"
proof -
  let ?v = "JObj [(''a'', JNum (1::int)), (''b'', JArr [JNum 10, JNum 20])]"
  have h: "resolve ?v [Key ''a''] = Some (JNum 1)" by simp
  have s1: "is_scalar (JNum (1::int))" and s2: "is_scalar (JNum (2::int))" by simp_all
  from updateJsonAtPath_changes_only_target [OF h s1 s2, of arrayIndex] h s1 s2
  show ?thesis by (simp add: assignProperty_def)
qed

text \<open>The scenario \<^verbatim>\<open>["b", 1]\<close> against \<^verbatim>\<open>{"b": [10, 20]}\<close> with the new value 99.\<close>

lemma updateJsonAtPath_element:
  "updateJsonAtPath arrayIndex (JObj [(''b'', JArr [JNum (10::int), JNum 20])])
     [Key ''b'', Index 1] (JNum 99) None
   = Inr (JObj [(''b'', JArr [JNum 10, JNum 99])])"
  by (simp add: assignElement_def)

subsection \<open>A position beyond the end of an array\<close>




subsection \<open>Renaming a key\<close>

lemma set_insertIndexed: "set (insertIndexed i k v m) = insert (k, v) (set m)"
  by (induction m) (auto split: option.splits if_splits)

lemma keys_insertIndexed: "fst ` set (insertIndexed i k v m) = insert k (fst ` set m)"
  by (simp add: set_insertIndexed)

lemma map_of_insertIndexed:
  "k \<notin> fst ` set m \<Longrightarrow> map_of (insertIndexed i k v m) j = (if j = k then Some v else map_of m j)"
  by (induction m) (auto split: option.splits)

lemma filter_absent: "k \<notin> fst ` set m \<Longrightarrow> filter (\<lambda>kv. fst kv \<noteq> k) m = m"
  by (induction m) auto

lemma others_insertIndexed:
  "k \<notin> fst ` set m \<Longrightarrow> filter (\<lambda>kv. fst kv \<noteq> k) (insertIndexed i k v m) = m"
  by (induction m) (auto simp: filter_absent split: option.splits)

lemma map_of_absent: "k \<notin> fst ` set m \<Longrightarrow> map_of m k = None"
  by (simp add: map_of_eq_None_iff)

lemma assignProperty_new:
  assumes "k \<notin> fst ` set m" and "k \<noteq> ''__proto__''"
  shows "fst ` set (assignProperty m k v) = insert k (fst ` set m)"
    and "map_of (assignProperty m k v) k = Some v"
    and "filter (\<lambda>kv. fst kv \<noteq> k) (assignProperty m k v) = m"
    and "arrayIndex k = None \<Longrightarrow> assignProperty m k v = m @ [(k, v)]"
proof -
  show "fst ` set (assignProperty m k v) = insert k (fst ` set m)"
    using assms by (cases "arrayIndex k") (simp_all add: assignProperty_def keys_insertIndexed)
  show "map_of (assignProperty m k v) k = Some v"
    using assms
    by (cases "arrayIndex k")
       (simp_all add: assignProperty_def map_of_insertIndexed map_of_absent map_add_def)
  show "filter (\<lambda>kv. fst kv \<noteq> k) (assignProperty m k v) = m"
    using assms
    by (cases "arrayIndex k") (simp_all add: assignProperty_def others_insertIndexed filter_absent)
  show "arrayIndex k = None \<Longrightarrow> assignProperty m k v = m @ [(k, v)]"
    using assms by (simp add: assignProperty_def)
qed

lemma keys_deleteProperty: "fst ` set (deleteProperty m k) = fst ` set m - {k}"
  by (auto simp: deleteProperty_def)

text \<open>
  Where the new key is not empty, differs from the old one, is not yet a key of the
  parent and is not \<^verbatim>\<open>__proto__\<close>, the rename removes the member under \<open>k\<close>, creates a
  member under \<open>k'\<close> with the new value and leaves the other members as they are, in
  their order; the new member is the last one unless \<open>k'\<close> is an array index.
\<close>

lemma updateJsonAtPath_rename:
  assumes "resolve v q = Some (JObj m)" and "k \<in> fst ` set m"
    and "k' \<noteq> []" and "k' \<noteq> k" and "k' \<notin> fst ` set m" and "k' \<noteq> ''__proto__''"
  shows "\<exists>v' m'. updateJsonAtPath strIndex v (q @ [Key k]) x (Some k') = Inr v'
           \<and> resolve v' q = Some (JObj m')
           \<and> set (map fst m') = (set (map fst m) - {k}) \<union> {k'}
           \<and> map_of m' k' = Some x
           \<and> filter (\<lambda>kv. fst kv \<noteq> k') m' = filter (\<lambda>kv. fst kv \<noteq> k) m
           \<and> (arrayIndex k' = None \<longrightarrow> m' = filter (\<lambda>kv. fst kv \<noteq> k) m @ [(k', x)])"
proof -
  let ?d = "deleteProperty m k"
  let ?m' = "assignProperty ?d k' x"
  have new: "k' \<notin> fst ` set ?d" using assms(5) by (simp add: keys_deleteProperty)
  have a: "assignLast strIndex (JObj m) (Some (Key k)) x (Some k') = Inr (JObj ?m')"
    using assms(3,4) by simp
  from updateJsonAtPath_at_parent [OF assms(1) a] obtain v'
    where u: "updateJsonAtPath strIndex v (q @ [Key k]) x (Some k') = Inr v'"
      and ch: "changed_at v v' q (JObj ?m')"
    by (elim exE conjE) (rule that, assumption+)
  have d: "?d = filter (\<lambda>kv. fst kv \<noteq> k) m" by (simp add: deleteProperty_def)
  show ?thesis
  proof (intro exI conjI)
    show "updateJsonAtPath strIndex v (q @ [Key k]) x (Some k') = Inr v'" by (rule u)
    show "resolve v' q = Some (JObj ?m')" using ch by (simp add: changed_at_def)
    show "set (map fst ?m') = (set (map fst m) - {k}) \<union> {k'}"
      using assignProperty_new(1) [OF new assms(6), of x] by (simp add: keys_deleteProperty)
    show "map_of ?m' k' = Some x"
      by (rule assignProperty_new(2) [OF new assms(6)])
    show "filter (\<lambda>kv. fst kv \<noteq> k') ?m' = filter (\<lambda>kv. fst kv \<noteq> k) m"
      using assignProperty_new(3) [OF new assms(6), of x] d by simp
    show "arrayIndex k' = None \<longrightarrow> ?m' = filter (\<lambda>kv. fst kv \<noteq> k) m @ [(k', x)]"
      using assignProperty_new(4) [OF new assms(6), of x] d by simp
  qed
qed

lemma updateJsonAtPath_rename_fresh:
  "resolve (JObj [(''a'', JNum (1::int))]) [] = Some (JObj [(''a'', JNum 1)])
   \<and> ''a'' \<in> fst ` set [(''a'', JNum (1::int))] \<and> ''z'' \<noteq> [] \<and> ''z'' \<noteq> ''a''
   \<and> ''z'' \<notin> fst ` set [(''a'', JNum (1::int))] \<and> ''z'' \<noteq> ''__proto__''
   \<and> arrayIndex ''z'' = None
   \<and> updateJsonAtPath arrayIndex (JObj [(''a'', JNum (1::int))]) [Key ''a''] (JNum 5) (Some ''z'')
       = Inr (JObj [(''z'', JNum 5)])"
proof -
  let ?m = "[(''a'', JNum (1::int))]"
  have h1: "resolve (JObj ?m) [] = Some (JObj ?m)" by simp
  have h2: "''a'' \<in> fst ` set ?m" by simp
  have h3: "''z'' \<noteq> []" and h4: "''z'' \<noteq> ''a''" and h6: "''z'' \<noteq> ''__proto__''" by simp_all
  have h5: "''z'' \<notin> fst ` set ?m" by simp
  have h7: "arrayIndex ''z'' = None" by (simp add: arrayIndex_def is_digit_def)
  from updateJsonAtPath_rename [OF h1 h2 h3 h4 h5 h6, of arrayIndex "JNum 5"]
  obtain v' m' where "updateJsonAtPath arrayIndex (JObj ?m) ([] @ [Key ''a'']) (JNum 5) (Some ''z'') = Inr v'"
    and "resolve v' [] = Some (JObj m')"
    and "arrayIndex ''z'' = None \<longrightarrow> m' = filter (\<lambda>kv. fst kv \<noteq> ''a'') ?m @ [(''z'', JNum 5)]"
    by (elim exE conjE) (rule that, assumption+)
  with h7 have "updateJsonAtPath arrayIndex (JObj ?m) [Key ''a''] (JNum 5) (Some ''z'') = Inr (JObj [(''z'', JNum 5)])"
    by simp
  with h7 show ?thesis by simp
qed

text \<open>
  Claim C3: a rename removes the member under the old key, inserts a member under the
  new key that holds the new value, and preserves all other members. The code does not
  do so for two new keys that pass the key validation of the dialog. Renaming \<^verbatim>\<open>a\<close> to
  \<^verbatim>\<open>b\<close> in \<^verbatim>\<open>{"a":1,"b":2,"c":3}\<close>, the value 1 kept: the assignment writes into the
  member \<^verbatim>\<open>b\<close> that is there already, so its value 2 is lost and the renamed entry
  stands before \<^verbatim>\<open>c\<close>, not last. Renaming \<^verbatim>\<open>a\<close> to \<^verbatim>\<open>__proto__\<close>: the member \<^verbatim>\<open>a\<close> is
  deleted and no member is created. In both cases \<^verbatim>\<open>handleSave\<close> raises no error and
  writes the document without the lost member.
\<close>

theorem handleSave_rename_loses_member:
  \<open>updateJsonAtPath arrayIndex
     (JObj [(''a'', JNum (1::int)), (''b'', JNum 2), (''c'', JNum 3)]) [Key ''a''] (JNum 1)
     (Some ''b'')
   = Inr (JObj [(''b'', JNum 1), (''c'', JNum 3)])
   \<and> updateJsonAtPath arrayIndex
       (JObj [(''a'', JNum (1::int)), (''b'', JNum 2), (''c'', JNum 3)]) [Key ''a''] (JNum 1)
       (Some ''__proto__'')
     = Inr (JObj [(''b'', JNum 2), (''c'', JNum 3)])
   \<and> validateKey (Some ''b'') = None \<and> validateKey (Some ''__proto__'') = None
   \<and> contents (handleSave (tableRuntime renameTexts) (renameModal ''b''))
     = ''{'' @ [CHR 0x0A] @ ''  "b": 1,'' @ [CHR 0x0A] @ ''  "c": 3'' @ [CHR 0x0A] @ ''}''
   \<and> error (handleSave (tableRuntime renameTexts) (renameModal ''b'')) = None
   \<and> contents (handleSave (tableRuntime renameTexts) (renameModal ''__proto__''))
     = ''{'' @ [CHR 0x0A] @ ''  "b": 2,'' @ [CHR 0x0A] @ ''  "c": 3'' @ [CHR 0x0A] @ ''}''
   \<and> error (handleSave (tableRuntime renameTexts) (renameModal ''__proto__'')) = None\<close>
  by (simp add: handleSave_def saveAttempt_def validateKey_def trim_def whiteSpace_def
        identifierStart_def identifierPart_def is_digit_def renameModal_def renameTexts_def
        tableRuntime_def parseValue_def updatedRow_def assignProperty_def deleteProperty_def
        Let_def)

section \<open>Properties of \<^verbatim>\<open>handleSave\<close>\<close>

subsection \<open>Key validation\<close>




subsection \<open>A document text that does not parse\<close>

text \<open>
  Claim C8. When the document text does not parse, \<^verbatim>\<open>handleSave\<close> leaves the file
  contents, their flag and the selected node as they are and sets an error; when the
  path check and the key validation let the save go on, the error is the one thrown by
  the parser and it is also shown as a toast. Whenever \<^verbatim>\<open>handleSave\<close> ends with an
  error the file contents are untouched, and whenever it ends without one the contents
  written are the text of a tree that \<^verbatim>\<open>updateJsonAtPath\<close> returned for the tree parsed
  from the document text.
\<close>

theorem handleSave_parse_failure:
  "(JSON_parse rt (json st) = None \<longrightarrow>
      contents (handleSave rt st) = contents st
      \<and> hasChanges (handleSave rt st) = hasChanges st
      \<and> selectedNode (handleSave rt st) = selectedNode st
      \<and> error (handleSave rt st) \<noteq> None
      \<and> (nodePath st \<noteq> None \<and> validateKey (editKey st) = None \<longrightarrow>
            error (handleSave rt st) = Some (Thrown SyntaxError)
            \<and> toasts (handleSave rt st) = toasts st @ [Failure (Thrown SyntaxError)]))
   \<and> (error (handleSave rt st) \<noteq> None \<longrightarrow>
        contents (handleSave rt st) = contents st \<and> hasChanges (handleSave rt st) = hasChanges st)
   \<and> (error (handleSave rt st) = None \<longrightarrow>
        (\<exists>parsedJson targetPath newValue newKey updated.
           JSON_parse rt (json st) = Some parsedJson
           \<and> updateJsonAtPath (indexOfString rt) parsedJson targetPath newValue newKey = Inr updated
           \<and> contents (handleSave rt st) = JSON_stringify rt updated
           \<and> hasChanges (handleSave rt st)))"
  by (auto simp: handleSave_def saveAttempt_def nodePath_def Let_def
      split: option.splits list.splits sum.splits)

theorem handleSave_parse_failure_witness:
  \<open>JSON_parse (tableRuntime exampleTexts) (json (exampleModal None ''{"a":'')) = None
   \<and> handleSave (tableRuntime exampleTexts) (exampleModal None ''{"a":'')
       = (exampleModal None ''{"a":'')
           \<lparr>error := Some (Thrown SyntaxError), toasts := [Failure (Thrown SyntaxError)]\<rparr>\<close>
  using handleSave_parse_failure [of "tableRuntime exampleTexts" \<open>exampleModal None ''{"a":''\<close>]
  by (simp add: handleSave_def saveAttempt_def validateKey_def exampleModal_def tableRuntime_def
        exampleTexts_def Let_def)

section \<open>Properties of the coercion\<close>

text \<open>
  Claim C6. With the target type \<^verbatim>\<open>null\<close> the result is \<^verbatim>\<open>null\<close> whatever the input;
  with \<^verbatim>\<open>boolean\<close> it is \<^verbatim>\<open>true\<close> exactly when the input is the boolean \<^verbatim>\<open>true\<close> or
  the string \<^verbatim>\<open>true\<close>; with \<^verbatim>\<open>number\<close> it is the runtime's \<^verbatim>\<open>Number\<close> of the input,
  and 0 when that is \<^verbatim>\<open>NaN\<close>: the conversion never fails.
\<close>

theorem parseValue_coercion:
  "parseValue rt value ''null'' = JNull
   \<and> parseValue rt value ''boolean'' = JBool (value = JBool True \<or> value = JStr ''true'')
   \<and> parseValue rt value ''number''
       = JNum (if isNaN rt (Number rt value) then numZero rt else Number rt value)"
  by (auto simp: parseValue_def Let_def)

text \<open>
  Claim C7. \<^verbatim>\<open>valueToString\<close> followed by \<^verbatim>\<open>parseValue\<close> at the value's own type gives
  the value back for every boolean, for \<^verbatim>\<open>null\<close> and for every string;
  \<^verbatim>\<open>valueToString\<close> writes \<^verbatim>\<open>null\<close> as the empty string and the booleans as \<^verbatim>\<open>true\<close>
  and \<^verbatim>\<open>false\<close>.
\<close>

theorem parseValue_valueToString:
  "parseValue rt (JStr (valueToString rt (JBool b))) ''boolean'' = JBool b
   \<and> parseValue rt (JStr (valueToString rt JNull)) ''null'' = JNull
   \<and> parseValue rt (JStr (valueToString rt (JStr s))) ''string'' = JStr s
   \<and> valueToString rt JNull = []
   \<and> valueToString rt (JBool True) = ''true''
   \<and> valueToString rt (JBool False) = ''false''"
  by (simp add: parseValue_def)

section \<open>Properties of the inspector dialog\<close>

text \<open>
  \<^verbatim>\<open>isEditableNode\<close> is false exactly when there is no node, when the node has no rows
  (no list, or an empty one), or when the type of its first row is \<^verbatim>\<open>object\<close> or
  \<^verbatim>\<open>array\<close>; and a press of \<^verbatim>\<open>Edit Node\<close> does nothing where it is false.
\<close>

lemma isEditableNode_iff:
  "(\<not> isEditableNode nodeData) =
     (nodeData = None
      \<or> (\<exists>node. nodeData = Some node
            \<and> (node_text node = None \<or> node_text node = Some []
                \<or> (\<exists>row rows. node_text node = Some (row # rows)
                      \<and> (row_type row = ''object'' \<or> row_type row = ''array'')))))"
proof (cases nodeData)
  case None
  then show ?thesis by (simp add: isEditableNode_def)
next
  case (Some node)
  show ?thesis
  proof (cases "node_text node")
    case None
    with Some show ?thesis by (simp add: isEditableNode_def)
  next
    case rows: (Some rows)
    show ?thesis
    proof (cases rows)
      case Nil
      with Some rows show ?thesis by (simp add: isEditableNode_def)
    next
      case (Cons row rest)
      with Some rows show ?thesis by (auto simp: isEditableNode_def)
    qed
  qed
qed

lemma clickEditNode_not_editable:
  "\<not> isEditableNode (selectedNode (editDialog d)) \<Longrightarrow> clickEditNode d = d"
  by (simp add: clickEditNode_def)


lemma join_brackets:
  "xs \<noteq> [] \<Longrightarrow> a @ join (b @ a) xs @ b = concat (map (\<lambda>x. a @ x @ b) xs)"
proof (induction xs rule: list_nonempty_induct)
  case (single x)
  then show ?case by simp
next
  case (cons x xs)
  then show ?case by (cases xs) simp_all
qed

lemma digit_code: "d < 10 \<Longrightarrow> (of_char (''0123456789'' ! d) :: nat) = 48 + d"
proof -
  assume "d < 10"
  then have "d \<in> {0, 1, 2, 3, 4, 5, 6, 7, 8, 9}" by auto
  then show ?thesis by auto
qed

lemma digit_member: "d < 10 \<Longrightarrow> ''0123456789'' ! d \<in> set ''0123456789''"
  by (rule nth_mem) simp

lemma digit_zero: "d < 10 \<Longrightarrow> (''0123456789'' ! d = CHR ''0'') = (d = 0)"
proof -
  assume "d < 10"
  then have "d \<in> {0, 1, 2, 3, 4, 5, 6, 7, 8, 9}" by auto
  then show ?thesis by auto
qed

lemma decimal_small: "n < 10 \<Longrightarrow> decimal n = [''0123456789'' ! n]"
  by (subst decimal.simps) simp

lemma decimal_large:
  "\<not> n < 10 \<Longrightarrow> decimal n = decimal (n div 10) @ [''0123456789'' ! (n mod 10)]"
  by (subst decimal.simps) simp

lemma decimal_not_empty: "decimal n \<noteq> []"
  by (cases "n < 10") (simp_all add: decimal_small decimal_large del: decimal.simps)

lemma decimal_digits: "list_all (\<lambda>c. c \<in> set ''0123456789'') (decimal n)"
proof (induction n rule: decimal.induct)
  case (1 n)
  show ?case
  proof (cases "n < 10")
    case True
    then show ?thesis using digit_member [of n] by (simp add: decimal_small del: decimal.simps)
  next
    case False
    with 1 show ?thesis using digit_member [of "n mod 10"]
      by (simp add: decimal_large del: decimal.simps)
  qed
qed

lemma decimal_no_leading_zero: "n = 0 \<or> hd (decimal n) \<noteq> CHR ''0''"
proof (induction n rule: decimal.induct)
  case (1 n)
  show ?case
  proof (cases "n < 10")
    case True
    then show ?thesis using digit_zero [of n] by (auto simp: decimal_small simp del: decimal.simps)
  next
    case False
    then have "n div 10 \<noteq> 0" by simp
    with 1 False have "hd (decimal (n div 10)) \<noteq> CHR ''0''" by blast
    with False show ?thesis
      by (simp add: decimal_large decimal_not_empty del: decimal.simps)
  qed
qed

lemma decimal_reads_back: "foldl (\<lambda>a c. 10 * a + ((of_char c :: nat) - 48)) 0 (decimal n) = n"
proof (induction n rule: decimal.induct)
  case (1 n)
  show ?case
  proof (cases "n < 10")
    case True
    then show ?thesis by (simp add: decimal_small digit_code del: decimal.simps)
  next
    case False
    with 1 have "foldl (\<lambda>a c. 10 * a + ((of_char c :: nat) - 48)) 0 (decimal (n div 10)) = n div 10"
      by simp
    with False show ?thesis
      by (simp add: decimal_large digit_code del: decimal.simps)
  qed
qed

text \<open>
  Claim C9. \<^verbatim>\<open>jsonPathToString\<close> gives \<^verbatim>\<open>$\<close> for no path and for the empty path, and
  for any other path \<^verbatim>\<open>$\<close> followed by every segment in square brackets: a string
  between double quotes, a number bare, as the runtime prints it. Below \<open>2\<^sup>5\<^sup>3\<close> that is
  \<open>decimal\<close>, the decimal digits of the number: at least one digit, nothing but
  digits, no leading zero except for 0 itself, and read as a decimal numeral they give
  the number back. So the path \<^verbatim>\<open>["customer", 0]\<close> prints as \<^verbatim>\<open>$["customer"][0]\<close>.
\<close>

theorem jsonPathToString_format:
  \<open>jsonPathToString largeNumber None = ''$''
   \<and> jsonPathToString largeNumber (Some []) = ''$''
   \<and> jsonPathToString largeNumber (Some (seg # path))
       = ''$'' @ concat (map (\<lambda>s. case s of
                                     Index n \<Rightarrow>
                                       ''['' @ (if n < 9007199254740992 then decimal n
                                               else largeNumber n) @ '']''
                                   | Key k \<Rightarrow> ''["'' @ k @ ''"]'') (seg # path))
   \<and> decimal 0 = ''0''
   \<and> decimal n \<noteq> []
   \<and> list_all (\<lambda>c. c \<in> set ''0123456789'') (decimal n)
   \<and> (n = 0 \<or> hd (decimal n) \<noteq> CHR ''0'')
   \<and> foldl (\<lambda>a c. 10 * a + ((of_char c :: nat) - 48)) 0 (decimal n) = n
   \<and> jsonPathToString largeNumber (Some [Key ''customer'', Index 0]) = ''$["customer"][0]''\<close>
proof -
  have b: \<open>''['' @ segmentText largeNumber s @ '']''
             = (case s of
                  Index n \<Rightarrow> ''['' @ (if n < 9007199254740992 then decimal n
                                       else largeNumber n) @ '']''
                | Key k \<Rightarrow> ''["'' @ k @ ''"]'')\<close> for s
    by (cases s) (simp_all del: decimal.simps)
  have "''['' @ join ('']'' @ ''['') (map (segmentText largeNumber) (seg # path)) @ '']''
          = concat (map (\<lambda>x. ''['' @ x @ '']'') (map (segmentText largeNumber) (seg # path)))"
    by (rule join_brackets) simp
  also have "\<dots> = concat (map (\<lambda>s. ''['' @ segmentText largeNumber s @ '']'') (seg # path))"
    by (simp add: comp_def del: segmentText.simps)
  finally have "jsonPathToString largeNumber (Some (seg # path))
        = ''$'' @ concat (map (\<lambda>s. ''['' @ segmentText largeNumber s @ '']'') (seg # path))"
    by (simp add: jsonPathToString_def del: join.simps segmentText.simps)
  then have 3: \<open>jsonPathToString largeNumber (Some (seg # path))
       = ''$'' @ concat (map (\<lambda>s. case s of
                                     Index n \<Rightarrow>
                                       ''['' @ (if n < 9007199254740992 then decimal n
                                               else largeNumber n) @ '']''
                                   | Key k \<Rightarrow> ''["'' @ k @ ''"]'') (seg # path))\<close>
    by (simp only: b)
  have 1: "jsonPathToString largeNumber None = ''$''"
    and 2: "jsonPathToString largeNumber (Some []) = ''$''"
    by (simp_all add: jsonPathToString_def)
  have 4: "decimal 0 = ''0''" by simp
  have 5: \<open>jsonPathToString largeNumber (Some [Key ''customer'', Index 0]) = ''$["customer"][0]''\<close>
    by (simp add: jsonPathToString_def)
  show ?thesis
    by (intro conjI)
       (rule 1, rule 2, rule 3, rule 4, rule decimal_not_empty, rule decimal_digits,
        rule decimal_no_leading_zero, rule decimal_reads_back, rule 5)
qed

subsection \<open>The content view\<close>







end
